theory Spec2Isabelle
  imports Main
begin

section \<open>JavaScript values\<close>

text \<open>
  The gateway moves dynamically typed values around: request bodies parsed from JSON,
  statement parameters, result rows. A value is one of the JSON shapes, \<open>undefined\<close>
  (an absent field, an array read past its end), or a member that an ordinary object
  inherits from \<open>Object.prototype\<close> (\<open>JInherited name\<close>: what \<open>row['toString']\<close>
  reads on a row with no such column). Numbers are integers here; no operation of the
  pipeline computes with them. Strings are lists of characters with codes below 256.

  An object is the list of its own properties in the order \<open>Object.keys\<close> reports them.
\<close>

datatype jsval =
    JUndefined
  | JNull
  | JBool bool
  | JNum int
  | JStr string
  | JArr "jsval list"
  | JObj "(string \<times> jsval) list"
  | JInherited string

type_synonym obj = "(string \<times> jsval) list"

subsection \<open>Decimal numerals\<close>

definition is_digit :: "char \<Rightarrow> bool" where
  "is_digit c = (48 \<le> (of_char c :: nat) \<and> (of_char c :: nat) \<le> 57)"

definition nat_of_digits :: "string \<Rightarrow> nat" where
  "nat_of_digits s = foldl (\<lambda>n c. 10 * n + ((of_char c :: nat) - 48)) 0 s"

definition digit_char :: "nat \<Rightarrow> char" where
  "digit_char d = char_of (48 + d)"

text \<open>The decimal text of a number, as a template literal prints an index.\<close>

fun string_of_nat :: "nat \<Rightarrow> string" where
  "string_of_nat n =
     (if n < 10 then [digit_char n] else string_of_nat (n div 10) @ [digit_char (n mod 10)])"

declare string_of_nat.simps [simp del]

subsection \<open>Property keys and their order\<close>

text \<open>
  A key is an array index when it is the canonical decimal text of an integer below
  \<open>2^32 - 1\<close>. The own keys of an ordinary object are its array indices in ascending
  numeric order, then its other string keys in the order they were created.
\<close>

definition is_array_index :: "string \<Rightarrow> bool" where
  "is_array_index k =
     (k \<noteq> [] \<and> list_all is_digit k \<and> (k = ''0'' \<or> hd k \<noteq> CHR ''0'')
      \<and> nat_of_digits k < 4294967295)"

fun insert_index :: "string \<Rightarrow> jsval \<Rightarrow> obj \<Rightarrow> obj" where
  "insert_index k v [] = [(k, v)]"
| "insert_index k v ((k', v') # rest) =
     (if is_array_index k' \<and> nat_of_digits k' < nat_of_digits k
      then (k', v') # insert_index k v rest
      else (k, v) # (k', v') # rest)"

fun replace_value :: "string \<Rightarrow> jsval \<Rightarrow> obj \<Rightarrow> obj" where
  "replace_value k v [] = []"
| "replace_value k v ((k', v') # rest) =
     (if k' = k then (k, v) # rest else (k', v') # replace_value k v rest)"

text \<open>
  \<open>obj[k] = v\<close> on an object made by a literal. An existing key keeps its place. A new
  array index goes among the indices, any other new key to the end. The key
  \<open>__proto__\<close> is the inherited accessor: assigning to it creates no own property
  (the change of prototype itself is outside the model).
\<close>

definition obj_set :: "obj \<Rightarrow> string \<Rightarrow> jsval \<Rightarrow> obj" where
  "obj_set ob k v =
     (if k = ''__proto__'' then ob
      else if k \<in> set (map fst ob) then replace_value k v ob
      else if is_array_index k then insert_index k v ob
      else ob @ [(k, v)])"

definition object_prototype_keys :: "string list" where
  "object_prototype_keys =
     [''constructor'', ''__defineGetter__'', ''__defineSetter__'', ''hasOwnProperty'',
      ''__lookupGetter__'', ''__lookupSetter__'', ''isPrototypeOf'',
      ''propertyIsEnumerable'', ''toString'', ''valueOf'', ''__proto__'',
      ''toLocaleString'']"

text \<open>\<open>row[col]\<close> on an object: the own property, else the inherited member, else undefined.\<close>

definition obj_get :: "obj \<Rightarrow> string \<Rightarrow> jsval" where
  "obj_get ob k =
     (case map_of ob k of
        Some v \<Rightarrow> v
      | None \<Rightarrow> if k \<in> set object_prototype_keys then JInherited k else JUndefined)"

text \<open>\<open>Object.keys(ob)\<close>.\<close>

definition object_keys :: "obj \<Rightarrow> string list" where
  "object_keys ob = map fst ob"

text \<open>\<open>row[index]\<close> on an array: undefined past the end.\<close>

definition arr_get :: "jsval list \<Rightarrow> nat \<Rightarrow> jsval" where
  "arr_get xs i = (if i < length xs then xs ! i else JUndefined)"

section \<open>Result shapes\<close>

text \<open>
  \<open>RawQueryResponse\<close> is the tabular shape; object mode is an array of row objects.
  \<open>QueryResponse = unknown[] | RawQueryResponse\<close>.
\<close>

record meta =
  rows_read :: int
  rows_written :: int

record rawQueryResponse =
  columns :: "string list"
  rows :: "jsval list list"
  meta :: meta

datatype queryResponse = Rows "obj list" | Raw rawQueryResponse

datatype direction = To | From

text \<open>
  A thrown value, with its \<open>message\<close> property when it has one. Thrown \<open>null\<close> and
  \<open>undefined\<close> are not modelled: the collaborators throw \<open>Error\<close> objects.
\<close>

datatype thrown = Thrown "string option"

text \<open>
  A \<open>TypeError\<close> is thrown by the engine, with a message of the engine's own wording.
  The model fixes no wording: \<open>engine_message\<close> is some text for each kind of fault,
  and nothing more is known of it.
\<close>

datatype js_fault = ReadOfUndefined | NotCallable | DestructureOfNullish

definition engine_message :: "js_fault \<Rightarrow> string" where
  "engine_message = (SOME text. True)"

definition type_error :: "js_fault \<Rightarrow> thrown" where
  "type_error fault = Thrown (Some (engine_message fault))"

subsection \<open>transformRawResults\<close>

text \<open>
  The \<open>reduce\<close> of the \<open>from\<close> direction: starting from \<open>{}\<close>, each column with its
  index sets \<open>obj[column] = row[index]\<close>.
\<close>

definition row_to_object :: "string list \<Rightarrow> jsval list \<Rightarrow> obj" where
  "row_to_object cols row =
     foldl (\<lambda>ob (index, column). obj_set ob column (arr_get row index)) []
       (enumerate 0 cols)"

definition raw_to_objects :: "rawQueryResponse \<Rightarrow> obj list" where
  "raw_to_objects result = map (row_to_object (columns result)) (rows result)"

text \<open>
  The \<open>to\<close> direction: \<open>columns = Object.keys(result[0] || {})\<close>, every row projected on
  them, \<open>rows_read = rows.length\<close>, \<open>rows_written = 0\<close>.
\<close>

definition objects_to_raw :: "obj list \<Rightarrow> rawQueryResponse" where
  "objects_to_raw result =
     (let cols = object_keys (case result of [] \<Rightarrow> [] | first # _ \<Rightarrow> first);
          rs = map (\<lambda>row. map (\<lambda>col. obj_get row col) cols) result
      in \<lparr>columns = cols, rows = rs,
          meta = \<lparr>rows_read = int (length rs), rows_written = 0\<rparr>\<rparr>)"

text \<open>
  On a value of the other shape the function throws: \<open>result.rows\<close> of an array is
  undefined, so \<open>result.rows.map\<close> reads a property of \<open>undefined\<close>; and a table
  has no \<open>map\<close> to call.
\<close>

fun transformRawResults :: "queryResponse \<Rightarrow> direction \<Rightarrow> thrown + queryResponse" where
  "transformRawResults (Raw result) From = Inr (Rows (raw_to_objects result))"
| "transformRawResults (Rows result) From = Inl (type_error ReadOfUndefined)"
| "transformRawResults (Rows result) To = Inr (Raw (objects_to_raw result))"
| "transformRawResults (Raw result) To = Inl (type_error NotCallable)"

text \<open>The spec's condition on converted rows: all of them have the same keys.\<close>

definition share_keys :: "obj list \<Rightarrow> bool" where
  "share_keys os = list_all (\<lambda>ob. list_all (\<lambda>ob'. object_keys ob' = object_keys ob) os) os"

section \<open>Strings\<close>

text \<open>\<open>s.includes(p)\<close>.\<close>

fun starts_with :: "string \<Rightarrow> string \<Rightarrow> bool" where
  "starts_with s [] = True"
| "starts_with [] (p # ps) = False"
| "starts_with (c # cs) (p # ps) = (c = p \<and> starts_with cs ps)"

fun str_includes :: "string \<Rightarrow> string \<Rightarrow> bool" where
  "str_includes [] p = (p = [])"
| "str_includes (c # cs) p = (starts_with (c # cs) p \<or> str_includes cs p)"

text \<open>
  \<open>s.trim()\<close> removes white space and line terminators from both ends; among the
  characters with codes below 256 these are tab, line feed, vertical tab, form feed,
  carriage return, space and the no-break space.
\<close>

definition is_whitespace :: "char \<Rightarrow> bool" where
  "is_whitespace c = ((of_char c :: nat) \<in> {9, 10, 11, 12, 13, 32, 160})"

definition trim :: "string \<Rightarrow> string" where
  "trim s = rev (dropWhile is_whitespace (rev (dropWhile is_whitespace s)))"

text \<open>\<open>sql.replaceAll("\n", " ")\<close>.\<close>

definition replace_newlines :: "string \<Rightarrow> string" where
  "replace_newlines s = map (\<lambda>c. if c = CHR 0x0A then CHR '' '' else c) s"

section \<open>Configuration and data source\<close>

record features =
  allowlist :: "bool option"
  rls :: "bool option"
  rest :: "bool option"
  websocket :: "bool option"
  export :: "bool option"
  import :: "bool option"

datatype role = Admin | Client

record starbaseDBConfiguration =
  outerbaseApiKey :: "string option"
  role :: role
  features :: "features option"

text \<open>
  Modelled from the spec: the \<open>DataSource\<close> type of \<open>./types\<close> is not in the sources.
  Section 3 of the spec gives it a \<open>source\<close> (internal or external) and, for an external
  source, a connection descriptor with a \<open>dialect\<close> and a \<open>provider\<close>; the credentials
  of the descriptor are read by no function modelled here. The \<open>rpc\<close> member of the
  source is the internal engine, a collaborator (see \<open>env\<close> below).
\<close>

datatype source_kind = Internal | External

record external_source =
  dialect :: "string option"
  provider :: "string option"

record dataSource =
  source :: source_kind
  external :: "external_source option"

section \<open>Promises and collaborators\<close>

text \<open>
  Every function of the pipeline is asynchronous and may throw. A computation takes the
  state of the world outside the gateway (the engine's tables, the cache, the remote
  services) and returns the value it resolves to, or the value it throws, with the
  world it leaves behind.
\<close>

type_synonym ('w, 'a) promise = "'w \<Rightarrow> (thrown + 'a) \<times> 'w"

definition resolve :: "'a \<Rightarrow> ('w, 'a) promise" where
  "resolve x w = (Inr x, w)"

definition reject :: "thrown \<Rightarrow> ('w, 'a) promise" where
  "reject e w = (Inl e, w)"

text \<open>\<open>const x = await m; f x\<close>: a rejection of \<open>m\<close> is thrown on.\<close>

definition await :: "('w, 'a) promise \<Rightarrow> ('a \<Rightarrow> ('w, 'b) promise) \<Rightarrow> ('w, 'b) promise" where
  "await m f w = (case m w of (Inl e, w') \<Rightarrow> (Inl e, w') | (Inr x, w') \<Rightarrow> f x w')"

text \<open>\<open>try { m } catch (error) { h error }\<close>.\<close>

definition try_catch :: "('w, 'a) promise \<Rightarrow> (thrown \<Rightarrow> ('w, 'a) promise) \<Rightarrow> ('w, 'a) promise" where
  "try_catch m h w = (case m w of (Inl e, w') \<Rightarrow> h e w' | (Inr x, w') \<Rightarrow> (Inr x, w'))"

datatype sdk_connection = PostgreSQL | MySQL | CloudflareD1 | Starbase | Turso

text \<open>
  The modules and services the pipeline calls and the sources do not hold: the
  allowlist (\<open>./allowlist\<close>), row-level security (\<open>./rls\<close>), the cache (\<open>./cache\<close>), the
  internal engine (\<open>dataSource.rpc.executeQuery\<close>), the SDK connections
  (\<open>connect\<close>, then \<open>raw\<close>, giving \<open>data\<close>) and the hosted endpoint (the \<open>POST\<close> to
  \<open>/api/v1/ezql/raw\<close> with the token and the JSON body \<open>{query, params}\<close>, giving
  \<open>response.results?.items\<close> of the answer). They are parameters of the model: every
  theorem below holds for all of them. \<open>beforeQueryCache\<close> gives \<open>None\<close> for a falsy
  answer.
\<close>

record 'w env =
  isQueryAllowed ::
    "string \<Rightarrow> bool \<Rightarrow> dataSource \<Rightarrow> starbaseDBConfiguration option \<Rightarrow> ('w, bool) promise"
  applyRLS ::
    "string \<Rightarrow> bool \<Rightarrow> string option \<Rightarrow> dataSource \<Rightarrow> starbaseDBConfiguration option
      \<Rightarrow> ('w, string) promise"
  beforeQueryCache :: "string \<Rightarrow> jsval \<Rightarrow> dataSource \<Rightarrow> ('w, queryResponse option) promise"
  afterQueryCache :: "string \<Rightarrow> jsval \<Rightarrow> queryResponse \<Rightarrow> dataSource \<Rightarrow> ('w, unit) promise"
  rpc_executeQuery :: "string \<Rightarrow> jsval \<Rightarrow> bool \<Rightarrow> ('w, queryResponse) promise"
  sdk_raw :: "sdk_connection \<Rightarrow> external_source \<Rightarrow> string \<Rightarrow> jsval \<Rightarrow> ('w, queryResponse) promise"
  fetch_ezql :: "string \<Rightarrow> string \<Rightarrow> jsval \<Rightarrow> ('w, queryResponse) promise"

section \<open>The operations\<close>

subsection \<open>beforeQuery and afterQuery\<close>

definition beforeQuery ::
  "string \<Rightarrow> jsval \<Rightarrow> dataSource option \<Rightarrow> starbaseDBConfiguration option
    \<Rightarrow> ('w, string \<times> jsval) promise" where
  "beforeQuery sql params ds config = resolve (sql, params)"

definition afterQuery ::
  "string \<Rightarrow> queryResponse \<Rightarrow> bool \<Rightarrow> dataSource option \<Rightarrow> starbaseDBConfiguration option
    \<Rightarrow> ('w, queryResponse) promise" where
  "afterQuery sql result isRaw ds config w =
     (if isRaw then
        (case transformRawResults result From of
           Inl e \<Rightarrow> (Inl e, w)
         | Inr result' \<Rightarrow> (transformRawResults result' To, w))
      else (Inr result, w))"

subsection \<open>executeSDKQuery\<close>

text \<open>
  Arguments as JavaScript binds them. \<open>executeExternalQuery\<close> declares four parameters
  and is called with five arguments, so its \<open>dataSource\<close> and \<open>config\<close> parameters can
  hold values of other types than the declared ones.
\<close>

datatype dyn_arg =
    ArgBool bool
  | ArgDataSource dataSource
  | ArgConfig starbaseDBConfiguration
  | ArgUndefined

text \<open>\<open>dataSource.external\<close>: a property read; it throws on \<open>undefined\<close> only.\<close>

fun arg_external :: "dyn_arg \<Rightarrow> thrown + external_source option" where
  "arg_external (ArgDataSource ds) = Inr (external ds)"
| "arg_external (ArgBool b) = Inr None"
| "arg_external (ArgConfig c) = Inr None"
| "arg_external ArgUndefined = Inl (type_error ReadOfUndefined)"

text \<open>\<open>config?.outerbaseApiKey\<close>.\<close>

fun arg_outerbaseApiKey :: "dyn_arg \<Rightarrow> string option" where
  "arg_outerbaseApiKey (ArgConfig c) = outerbaseApiKey c"
| "arg_outerbaseApiKey (ArgDataSource ds) = None"
| "arg_outerbaseApiKey (ArgBool b) = None"
| "arg_outerbaseApiKey ArgUndefined = None"

definition select_connection :: "external_source \<Rightarrow> thrown + sdk_connection" where
  "select_connection ext =
     (if dialect ext = Some ''postgres'' then Inr PostgreSQL
      else if dialect ext = Some ''mysql'' then Inr MySQL
      else if provider ext = Some ''cloudflare-d1'' then Inr CloudflareD1
      else if provider ext = Some ''starbase'' then Inr Starbase
      else if provider ext = Some ''turso'' then Inr Turso
      else Inl (Thrown (Some ''Unsupported external database type'')))"

definition executeSDKQuery ::
  "'w env \<Rightarrow> string \<Rightarrow> jsval \<Rightarrow> dyn_arg \<Rightarrow> dyn_arg \<Rightarrow> ('w, queryResponse) promise" where
  "executeSDKQuery env sql params ds config =
     (case arg_external ds of
        Inl e \<Rightarrow> reject e
      | Inr None \<Rightarrow> resolve (Rows [])
      | Inr (Some ext) \<Rightarrow>
          (case select_connection ext of
             Inl e \<Rightarrow> reject e
           | Inr connection \<Rightarrow> sdk_raw env connection ext sql params))"

subsection \<open>executeExternalQuery\<close>

text \<open>
  \<open>sql.replace(/\?/g, () => `:param${paramIndex++}`)\<close>: a scan from the left with a
  counter.
\<close>

fun replace_placeholders :: "nat \<Rightarrow> string \<Rightarrow> string" where
  "replace_placeholders paramIndex [] = []"
| "replace_placeholders paramIndex (c # cs) =
     (if c = CHR ''?''
      then '':param'' @ string_of_nat paramIndex @ replace_placeholders (Suc paramIndex) cs
      else c # replace_placeholders paramIndex cs)"

text \<open>
  \<open>params.reduce((acc, value, index) => ({...acc, [`param${index}`]: value}), {})\<close>.
\<close>

definition params_to_object :: "jsval list \<Rightarrow> obj" where
  "params_to_object ps =
     foldl (\<lambda>acc (index, v). obj_set acc (''param'' @ string_of_nat index) v) []
       (enumerate 0 ps)"

definition executeExternalQuery ::
  "'w env \<Rightarrow> string \<Rightarrow> jsval \<Rightarrow> dyn_arg \<Rightarrow> dyn_arg \<Rightarrow> ('w, queryResponse) promise" where
  "executeExternalQuery env sql params ds config =
     (case arg_external ds of
        Inl e \<Rightarrow> reject e
      | Inr None \<Rightarrow> reject (Thrown (Some ''External connection not found.''))
      | Inr (Some ext) \<Rightarrow>
          (case arg_outerbaseApiKey config of
             None \<Rightarrow> executeSDKQuery env sql params ds config
           | Some key \<Rightarrow>
               if key = [] then executeSDKQuery env sql params ds config
               else
                 (case params of
                    JArr ps \<Rightarrow>
                      fetch_ezql env key
                        (replace_newlines (replace_placeholders 0 sql))
                        (JObj (params_to_object ps))
                  | _ \<Rightarrow> fetch_ezql env key (replace_newlines sql) params)))"

subsection \<open>executeQuery\<close>

text \<open>\<open>config?.features?.allowlist ?? false\<close> and \<open>config?.features?.rls ?? false\<close>.\<close>

definition feature_or_false ::
  "(features \<Rightarrow> bool option) \<Rightarrow> starbaseDBConfiguration option \<Rightarrow> bool" where
  "feature_or_false key config =
     (case config of
        None \<Rightarrow> False
      | Some c \<Rightarrow>
          (case features c of
             None \<Rightarrow> False
           | Some fs \<Rightarrow> (case key fs of None \<Rightarrow> False | Some b \<Rightarrow> b)))"

text \<open>\<open>dataSource.external?.dialect\<close>.\<close>

definition external_dialect :: "dataSource \<Rightarrow> string option" where
  "external_dialect ds = (case external ds of None \<Rightarrow> None | Some ext \<Rightarrow> dialect ext)"

text \<open>\<open>throw new Error(error.message ?? "An error occurred")\<close>.\<close>

fun rethrow :: "thrown \<Rightarrow> thrown" where
  "rethrow (Thrown (Some m)) = Thrown (Some m)"
| "rethrow (Thrown None) = Thrown (Some ''An error occurred'')"

text \<open>
  The body of \<open>executeQuery\<close> for a data source that is present. The call of
  \<open>executeExternalQuery\<close> passes \<open>updatedSQL, updatedParams, isRaw, dataSource, config\<close>:
  the third argument binds the parameter \<open>dataSource\<close>, the fourth the parameter
  \<open>config\<close>, and the fifth is dropped. The cache is written under \<open>sql\<close>, the statement
  as \<open>applyRLS\<close> returned it.
\<close>

definition executeQuery ::
  "'w env \<Rightarrow> string \<Rightarrow> jsval \<Rightarrow> bool \<Rightarrow> dataSource option \<Rightarrow> starbaseDBConfiguration option
    \<Rightarrow> ('w, queryResponse) promise" where
  "executeQuery env sql params isRaw dataSource config =
     (case dataSource of
        None \<Rightarrow> resolve (Rows [])
      | Some ds \<Rightarrow>
          try_catch
            (await (isQueryAllowed env sql (feature_or_false allowlist config) ds config) (\<lambda>_.
             await (applyRLS env sql (feature_or_false rls config) (external_dialect ds) ds config)
               (\<lambda>sql.
             await (beforeQuery sql params (Some ds) config) (\<lambda>(updatedSQL, updatedParams).
             await (if \<not> isRaw then beforeQueryCache env updatedSQL updatedParams ds
                    else resolve None) (\<lambda>cache.
               case cache of
                 Some cached \<Rightarrow> resolve cached
               | None \<Rightarrow>
                   await (if source ds = Internal
                          then rpc_executeQuery env updatedSQL updatedParams isRaw
                          else executeExternalQuery env updatedSQL updatedParams
                                 (ArgBool isRaw) (ArgDataSource ds)) (\<lambda>response.
                   await (if \<not> isRaw then afterQueryCache env sql updatedParams response ds
                          else resolve ()) (\<lambda>_.
                   afterQuery updatedSQL response isRaw (Some ds) config)))))))
            (\<lambda>error. reject (rethrow error)))"

subsection \<open>executeTransaction\<close>

record query =
  query_sql :: string
  query_params :: jsval

text \<open>The \<open>for ... of\<close> loop, with \<open>results\<close> as it stands before the element.\<close>

fun transaction_loop ::
  "'w env \<Rightarrow> bool \<Rightarrow> dataSource \<Rightarrow> starbaseDBConfiguration option \<Rightarrow> query list
    \<Rightarrow> queryResponse list \<Rightarrow> ('w, queryResponse list) promise" where
  "transaction_loop env isRaw ds config [] results = resolve results"
| "transaction_loop env isRaw ds config (q # queries) results =
     await (executeQuery env (query_sql q) (query_params q) isRaw (Some ds) config)
       (\<lambda>result. transaction_loop env isRaw ds config queries (results @ [result]))"

definition executeTransaction ::
  "'w env \<Rightarrow> query list \<Rightarrow> bool \<Rightarrow> dataSource option \<Rightarrow> starbaseDBConfiguration option
    \<Rightarrow> ('w, queryResponse list) promise" where
  "executeTransaction env queries isRaw dataSource config =
     (case dataSource of
        None \<Rightarrow> resolve []
      | Some ds \<Rightarrow> transaction_loop env isRaw ds config queries [])"

section \<open>The handler\<close>

text \<open>
  A request as the handler reads it: the method, the path as its segments, the
  \<open>Content-Type\<close> header, and what \<open>request.json()\<close> gives (the body parsed, or the
  error it throws).
\<close>

record request =
  req_method :: string
  req_path :: "string list"
  req_content_type :: "string option"
  req_json :: "thrown + jsval"

datatype payload = Single queryResponse | Batch "queryResponse list"

record response =
  resp_status :: nat
  resp_result :: "payload option"
  resp_error :: "string option"

text \<open>
  Modelled from the spec: \<open>createResponse\<close> of \<open>./utils\<close> is not in the sources. By
  section 6 a response carries the result or an error text, with a status.
\<close>

definition createResponse :: "payload option \<Rightarrow> string option \<Rightarrow> nat \<Rightarrow> response" where
  "createResponse r e s = \<lparr>resp_status = s, resp_result = r, resp_error = e\<rparr>"

text \<open>
  Modelled from the spec: the plugin registry of \<open>./plugin\<close> is not in the sources, and
  the spec leaves the plugin mechanism out of its scope. \<open>registry.init()\<close> runs before
  the gateway registers its own routes, so what a plugin registers is asked first. A
  plugin is taken as the routes it registers: for a request, the response it gives, or
  nothing when none of its routes matches.
\<close>

type_synonym plugin = "request \<Rightarrow> response option"

record starbaseDB =
  this_dataSource :: dataSource
  this_config :: starbaseDBConfiguration
  this_plugins :: "plugin list"

text \<open>The constructor, with \<open>options.plugins || []\<close> already taken.\<close>

definition new_StarbaseDB ::
  "dataSource \<Rightarrow> starbaseDBConfiguration \<Rightarrow> plugin list \<Rightarrow> thrown + starbaseDB" where
  "new_StarbaseDB ds config plugins =
     (if source ds = External \<and> external ds = None
      then Inl (Thrown (Some ''No external data sources available.''))
      else Inr \<lparr>this_dataSource = ds, this_config = config, this_plugins = plugins\<rparr>)"

subsection \<open>queryRoute\<close>

text \<open>
  \<open>const { sql, params, transaction } = v\<close> throws on \<open>null\<close> and \<open>undefined\<close>; on any
  other value each name is a property read. Only the names \<open>sql\<close>, \<open>params\<close> and
  \<open>transaction\<close> are read this way, and values other than objects have none of them.
\<close>

fun nullish :: "jsval \<Rightarrow> bool" where
  "nullish JNull = True"
| "nullish JUndefined = True"
| "nullish v = False"

fun property :: "jsval \<Rightarrow> string \<Rightarrow> jsval" where
  "property (JObj ob) k = obj_get ob k"
| "property v k = JUndefined"

text \<open>\<open>typeof sql !== 'string' || !sql.trim()\<close>.\<close>

fun invalid_sql :: "jsval \<Rightarrow> bool" where
  "invalid_sql (JStr s) = (trim s = [])"
| "invalid_sql v = True"

text \<open>
  \<open>params !== undefined && !Array.isArray(params) && typeof params !== 'object'\<close>;
  \<open>typeof null\<close> is \<open>'object'\<close>.
\<close>

fun invalid_params :: "jsval \<Rightarrow> bool" where
  "invalid_params JUndefined = False"
| "invalid_params (JArr xs) = False"
| "invalid_params (JObj ob) = False"
| "invalid_params JNull = False"
| "invalid_params v = True"

fun sql_text :: "jsval \<Rightarrow> string" where
  "sql_text (JStr s) = s"
| "sql_text v = []"

text \<open>The callback of \<open>transaction.map\<close>.\<close>

definition to_query :: "jsval \<Rightarrow> thrown + query" where
  \<open>to_query queryObj =
     (if nullish queryObj then Inl (type_error DestructureOfNullish)
      else if invalid_sql (property queryObj ''sql'')
      then Inl (Thrown (Some ''Invalid or empty "sql" field in transaction.''))
      else if invalid_params (property queryObj ''params'')
      then Inl (Thrown
             (Some ''Invalid "params" field in transaction. Must be an array or object.''))
      else Inr \<lparr>query_sql = sql_text (property queryObj ''sql''),
                query_params = property queryObj ''params''\<rparr>)\<close>

text \<open>\<open>xs.map(f)\<close> for a callback that may throw: the first throw ends the map.\<close>

fun map_throwing :: "('a \<Rightarrow> thrown + 'b) \<Rightarrow> 'a list \<Rightarrow> thrown + 'b list" where
  "map_throwing f [] = Inr []"
| "map_throwing f (x # xs) =
     (case f x of
        Inl e \<Rightarrow> Inl e
      | Inr y \<Rightarrow> (case map_throwing f xs of Inl e \<Rightarrow> Inl e | Inr ys \<Rightarrow> Inr (y # ys)))"

text \<open>\<open>error?.message || 'An unexpected error occurred.'\<close>.\<close>

fun message_or_default :: "thrown \<Rightarrow> string" where
  "message_or_default (Thrown (Some m)) = (if m = [] then ''An unexpected error occurred.'' else m)"
| "message_or_default (Thrown None) = ''An unexpected error occurred.''"

text \<open>\<open>Array.isArray(transaction) && transaction.length\<close>.\<close>

fun is_batch :: "jsval \<Rightarrow> bool" where
  "is_batch (JArr ts) = (ts \<noteq> [])"
| "is_batch v = False"

fun elements :: "jsval \<Rightarrow> jsval list" where
  "elements (JArr ts) = ts"
| "elements v = []"

text \<open>
  The \<open>try\<close> block of \<open>queryRoute\<close>. The handler calls each operation with one
  argument, an options object: \<open>executeQuery({sql, params, isRaw, dataSource, config})\<close>
  and \<open>executeTransaction({queries, isRaw, dataSource, config})\<close>. The operations of the
  sources declare positional parameters, so the object binds the first parameter and
  the others are \<open>undefined\<close>: \<open>isRaw\<close> is falsy, \<open>dataSource\<close> and \<open>config\<close> are absent.
  Both operations test \<open>dataSource\<close> before they read their first parameter, which is
  declared a string (a list of queries) and holds the object; in its place the model
  passes the statement (the queries) of the request, which the operation does not read.
\<close>

definition queryRoute_try ::
  "'w env \<Rightarrow> starbaseDB \<Rightarrow> request \<Rightarrow> bool \<Rightarrow> ('w, response) promise" where
  \<open>queryRoute_try env this request isRaw =
     (let contentType = (case req_content_type request of None \<Rightarrow> [] | Some h \<Rightarrow> h) in
      if \<not> str_includes contentType ''application/json''
      then resolve (createResponse None (Some ''Content-Type must be application/json.'') 400)
      else
        (case req_json request of
           Inl e \<Rightarrow> reject e
         | Inr body \<Rightarrow>
             if nullish body then reject (type_error DestructureOfNullish)
             else
               (let sql = property body ''sql'';
                    params = property body ''params'';
                    transaction = property body ''transaction''
                in
                if is_batch transaction then
                  (case map_throwing to_query (elements transaction) of
                     Inl e \<Rightarrow> reject e
                   | Inr queries \<Rightarrow>
                       await (executeTransaction env queries False None None)
                         (\<lambda>response. resolve (createResponse (Some (Batch response)) None 200)))
                else if invalid_sql sql
                then resolve (createResponse None (Some ''Invalid or empty "sql" field.'') 400)
                else if invalid_params params
                then resolve (createResponse None
                       (Some ''Invalid "params" field. Must be an array or object.'') 400)
                else
                  await (executeQuery env (sql_text sql) JUndefined False None None)
                    (\<lambda>response. resolve (createResponse (Some (Single response)) None 200)))))\<close>

text \<open>\<open>queryRoute\<close> with its \<open>catch\<close>: it always answers.\<close>

definition queryRoute :: "'w env \<Rightarrow> starbaseDB \<Rightarrow> request \<Rightarrow> bool \<Rightarrow> 'w \<Rightarrow> response \<times> 'w" where
  "queryRoute env this request isRaw w =
     (case queryRoute_try env this request isRaw w of
        (Inl e, w') \<Rightarrow> (createResponse None (Some (message_or_default e)) 500, w')
      | (Inr r, w') \<Rightarrow> (r, w'))"

subsection \<open>Routing\<close>

text \<open>\<open>this.config.features?.[key] ?? !!defaultValue\<close>, with the default \<open>true\<close>.\<close>

definition getFeature :: "starbaseDB \<Rightarrow> (features \<Rightarrow> bool option) \<Rightarrow> bool \<Rightarrow> bool" where
  "getFeature this key defaultValue =
     (case features (this_config this) of
        None \<Rightarrow> defaultValue
      | Some fs \<Rightarrow> (case key fs of None \<Rightarrow> defaultValue | Some b \<Rightarrow> b))"

text \<open>
  What answers a request: a response of the handler's own or of a plugin, or the route
  function the request is handed to (the CORS, export, import, REST and API modules
  are not in the sources). A \<open>HEAD\<close> request is dispatched by the framework as a \<open>GET\<close>
  and answered with the status and headers of that answer and no body: \<open>HeadOf\<close>.
\<close>

datatype handler =
    Respond response
  | CorsPreflight
  | QueryRoute bool
  | LiteREST_handleRequest
  | DumpDatabaseRoute
  | ExportTableToJsonRoute string
  | ExportTableToCsvRoute string
  | ImportDumpRoute
  | ImportTableFromJsonRoute string
  | ImportTableFromCsvRoute string
  | HandleApiRequest
  | HeadOf handler

definition isInternalSource :: "starbaseDB \<Rightarrow> handler \<Rightarrow> handler" where
  "isInternalSource this next =
     (if source (this_dataSource this) \<noteq> Internal
      then Respond (createResponse None
             (Some ''Function is only available for internal data source.'') 400)
      else next)"

definition hasTableName :: "string \<Rightarrow> (string \<Rightarrow> handler) \<Rightarrow> handler" where
  "hasTableName name next =
     (let tableName = trim name in
      if tableName = [] then Respond (createResponse None (Some ''Table name is required'') 400)
      else next tableName)"

text \<open>A path \<open>/a/b/:tableName\<close>: three segments, the last one not empty.\<close>

fun table_route :: "string \<Rightarrow> string \<Rightarrow> string list \<Rightarrow> string option" where
  "table_route a b [x, y, t] = (if x = a \<and> y = b \<and> t \<noteq> [] then Some t else None)"
| "table_route a b p = None"

text \<open>The \<open>tableName\<close> parameter of such a path.\<close>

fun table_param :: "string list \<Rightarrow> string" where
  "table_param [x, y, t] = t"
| "table_param p = []"

text \<open>A path \<open>/a/*\<close>.\<close>

fun under :: "string \<Rightarrow> string list \<Rightarrow> bool" where
  "under a [] = False"
| "under a (x # p) = (x = a)"

text \<open>
  The gateway's own routes in the order \<open>handle\<close> registers them; the first whose method
  and path match answers. The guards of a route run before its function. The sweep of
  the cache that \<open>handle\<close> starts with \<open>ctx.waitUntil\<close> is not awaited and is no part of
  the answer; it is left out.
\<close>

definition own_routes :: "starbaseDB \<Rightarrow> string \<Rightarrow> string list \<Rightarrow> handler" where
  "own_routes this m p =
     (if m = ''OPTIONS'' then CorsPreflight
      else if m = ''POST'' \<and> p = [''query'', ''raw''] then QueryRoute True
      else if m = ''POST'' \<and> p = [''query''] then QueryRoute False
      else if getFeature this rest True \<and> under ''rest'' p then LiteREST_handleRequest
      else if getFeature this export True \<and> m = ''GET'' \<and> p = [''export'', ''dump'']
      then isInternalSource this DumpDatabaseRoute
      else if getFeature this export True \<and> m = ''GET''
              \<and> table_route ''export'' ''json'' p \<noteq> None
      then isInternalSource this (hasTableName (table_param p) ExportTableToJsonRoute)
      else if getFeature this export True \<and> m = ''GET''
              \<and> table_route ''export'' ''csv'' p \<noteq> None
      then isInternalSource this (hasTableName (table_param p) ExportTableToCsvRoute)
      else if getFeature this import True \<and> m = ''POST'' \<and> p = [''import'', ''dump'']
      then isInternalSource this ImportDumpRoute
      else if getFeature this import True \<and> m = ''POST''
              \<and> table_route ''import'' ''json'' p \<noteq> None
      then isInternalSource this (hasTableName (table_param p) ImportTableFromJsonRoute)
      else if getFeature this import True \<and> m = ''POST''
              \<and> table_route ''import'' ''csv'' p \<noteq> None
      then isInternalSource this (hasTableName (table_param p) ImportTableFromCsvRoute)
      else if under ''api'' p then HandleApiRequest
      else Respond (createResponse None (Some ''Not found'') 404))"

text \<open>The first plugin with a route for the request answers it.\<close>

fun plugin_answer :: "plugin list \<Rightarrow> request \<Rightarrow> response option" where
  "plugin_answer [] request = None"
| "plugin_answer (plugin # plugins) request =
     (case plugin request of Some r \<Rightarrow> Some r | None \<Rightarrow> plugin_answer plugins request)"

text \<open>\<open>app.fetch(request)\<close> on the routes of one call of \<open>handle\<close>.\<close>

definition app_fetch :: "starbaseDB \<Rightarrow> request \<Rightarrow> handler" where
  "app_fetch this request =
     (case plugin_answer (this_plugins this) request of
        Some r \<Rightarrow> Respond r
      | None \<Rightarrow>
          if req_method request = ''HEAD''
          then HeadOf (own_routes this ''GET'' (req_path request))
          else own_routes this (req_method request) (req_path request))"

text \<open>
  The application on which \<open>handle\<close> registers its routes is one object of the module,
  shared by all calls. The framework's router takes routes until it has matched a
  first request; a route added after that is refused with an error. So the first call
  of \<open>handle\<close> in a process registers the routes and answers, and a later call throws at
  its first registration, \<open>app.use\<close>. The state of the application is whether its
  router has matched a request.
\<close>

record hono_app =
  matcher_built :: bool

definition fresh_app :: hono_app where
  "fresh_app = \<lparr>matcher_built = False\<rparr>"

definition handle :: "starbaseDB \<Rightarrow> request \<Rightarrow> hono_app \<Rightarrow> (thrown + handler) \<times> hono_app" where
  "handle this request app =
     (if matcher_built app
      then (Inl (Thrown (Some ''Can not add a route since the matcher is already built.'')), app)
      else (Inr (app_fetch this request), app\<lparr>matcher_built := True\<rparr>))"

subsection \<open>The REST layer\<close>

text \<open>
  Modelled from the spec: \<open>LiteREST\<close> of \<open>./literest\<close> is not in the sources; the handler
  builds it from the data source and the configuration and hands it the requests under
  \<open>/rest/\<close>. Section 4.6 of the spec: the layer "is available only to gateways whose
  DataSource is internal, enforced by a guard that rejects REST calls when the active
  source is external", and otherwise generates statements for the pipeline. Section 8:
  the rejection is a fixed internal-only error, whatever the path and the verb. The
  fixed error is taken to be the one of the handler's guard \<open>isInternalSource\<close>.
\<close>

datatype rest_answer = RestRejected response | RestGeneratesSQL

definition liteREST_handleRequest :: "dataSource \<Rightarrow> request \<Rightarrow> rest_answer" where
  "liteREST_handleRequest ds request =
     (if source ds = External
      then RestRejected (createResponse None
             (Some ''Function is only available for internal data source.'') 400)
      else RestGeneratesSQL)"

section \<open>A reference environment\<close>

text \<open>
  Modelled from the spec: the allowlist, row-level security and cache modules and the
  engines are not in the sources. This environment follows sections 4.2 to 4.4 of the
  spec and serves to run the pipeline on concrete inputs: the allowlist rejects (by
  throwing) a statement that \<open>allowed\<close> does not admit, row-level security rewrites with
  \<open>policy\<close>, the cache is a store keyed by statement and parameters, and every backend
  answers with the rows \<open>engine\<close> gives for the statement, recording the statement among
  those it has applied, or throws the engine's error and applies nothing.
\<close>

record demo_world =
  cache_entries :: "((string \<times> jsval) \<times> queryResponse) list"
  executed :: "(string \<times> jsval) list"

definition demo_backend ::
  "(string \<Rightarrow> thrown + obj list) \<Rightarrow> string \<Rightarrow> jsval \<Rightarrow> bool
    \<Rightarrow> (demo_world, queryResponse) promise" where
  "demo_backend engine sql params isRaw w =
     (case engine sql of
        Inl e \<Rightarrow> (Inl e, w)
      | Inr found \<Rightarrow>
          (Inr (if isRaw then Raw (objects_to_raw found) else Rows found),
           w\<lparr>executed := executed w @ [(sql, params)]\<rparr>))"

definition demo_env ::
  "(string \<Rightarrow> bool) \<Rightarrow> (string \<Rightarrow> string) \<Rightarrow> (string \<Rightarrow> thrown + obj list) \<Rightarrow> demo_world env" where
  "demo_env allowed policy engine =
     \<lparr>isQueryAllowed = (\<lambda>sql isEnabled ds config.
        if isEnabled \<and> \<not> allowed sql then reject (Thrown (Some ''Query not allowed''))
        else resolve True),
      applyRLS = (\<lambda>sql isEnabled dialect ds config.
        resolve (if isEnabled then policy sql else sql)),
      beforeQueryCache = (\<lambda>sql params ds w.
        (Inr (map_of (cache_entries w) (sql, params)), w)),
      afterQueryCache = (\<lambda>sql params response ds w.
        (Inr (), w\<lparr>cache_entries := ((sql, params), response) # cache_entries w\<rparr>)),
      rpc_executeQuery = demo_backend engine,
      sdk_raw = (\<lambda>connection ext sql params. demo_backend engine sql params True),
      fetch_ezql = (\<lambda>key sql params. demo_backend engine sql params False)\<rparr>"

definition empty_world :: demo_world where
  "empty_world = \<lparr>cache_entries = [], executed = []\<rparr>"

definition internal_source :: dataSource where
  "internal_source = \<lparr>source = Internal, external = None\<rparr>"

definition external_postgres :: dataSource where
  "external_postgres =
     \<lparr>source = External, external = Some \<lparr>dialect = Some ''postgres'', provider = None\<rparr>\<rparr>"

definition config_with :: "string option \<Rightarrow> features option \<Rightarrow> starbaseDBConfiguration" where
  "config_with key fs = \<lparr>outerbaseApiKey = key, role = Admin, features = fs\<rparr>"

definition features_with :: "bool option \<Rightarrow> bool option \<Rightarrow> features" where
  "features_with a r =
     \<lparr>allowlist = a, rls = r, rest = None, websocket = None, export = None, import = None\<rparr>"

definition json_request :: "string \<Rightarrow> string list \<Rightarrow> jsval \<Rightarrow> request" where
  "json_request m p body =
     \<lparr>req_method = m, req_path = p, req_content_type = Some ''application/json'',
      req_json = Inr body\<rparr>"

definition sample_table :: rawQueryResponse where
  "sample_table =
     \<lparr>columns = [''id'', ''name''],
      rows = [[JNum 1, JStr ''Ada''], [JNum 2, JStr ''Bob'']],
      meta = \<lparr>rows_read = 2, rows_written = 0\<rparr>\<rparr>"

text \<open>A join that selects two columns of the same name, and a table without rows.\<close>

definition joined_table :: rawQueryResponse where
  "joined_table =
     \<lparr>columns = [''id'', ''id''], rows = [[JNum 1, JNum 2]],
      meta = \<lparr>rows_read = 1, rows_written = 0\<rparr>\<rparr>"

definition empty_table :: rawQueryResponse where
  "empty_table =
     \<lparr>columns = [''id''], rows = [], meta = \<lparr>rows_read = 0, rows_written = 0\<rparr>\<rparr>"

definition sample_engine :: "string \<Rightarrow> thrown + obj list" where
  "sample_engine sql =
     (if sql = ''SELECT 1/0'' then Inl (Thrown (Some ''division by zero''))
      else Inr [[(''id'', JNum 1)]])"

definition owner_policy :: "string \<Rightarrow> string" where
  "owner_policy sql = sql @ '' WHERE owner = 1''"

definition gateway :: "dataSource \<Rightarrow> features option \<Rightarrow> starbaseDB" where
  "gateway ds fs =
     \<lparr>this_dataSource = ds, this_config = config_with None fs, this_plugins = []\<rparr>"





text \<open>Rows with their keys in different orders, and one row that lacks a key.\<close>

definition sample_rows :: "obj list" where
  "sample_rows =
     [[(''id'', JNum 1), (''name'', JStr ''Ada'')],
      [(''name'', JStr ''Bob''), (''id'', JNum 2)],
      [(''id'', JNum 3)]]"

text \<open>Requests under \<open>/rest/\<close>, and a configuration with the REST feature off.\<close>

definition rest_request :: "string \<Rightarrow> request" where
  "rest_request m =
     \<lparr>req_method = m, req_path = [''rest'', ''users''], req_content_type = None,
      req_json = Inl (Thrown (Some ''Unexpected end of JSON input''))\<rparr>"

definition rest_off :: features where
  "rest_off =
     \<lparr>allowlist = None, rls = None, rest = Some False, websocket = None, export = None,
      import = None\<rparr>"



section \<open>Notions of the spec\<close>

subsection \<open>Named placeholders\<close>

text \<open>
  The spec's rewrite, said on the text between the placeholders: the statement is cut at
  every \<open>?\<close>, and the pieces are joined again with \<open>:param0\<close>, \<open>:param1\<close>, ... in this
  order. An array of parameters becomes the mapping from \<open>paramN\<close> to its \<open>N\<close>-th value.
\<close>

fun split_on :: "char \<Rightarrow> string \<Rightarrow> string list" where
  "split_on sep [] = [[]]"
| "split_on sep (c # cs) =
     (if c = sep then [] # split_on sep cs
      else (case split_on sep cs of [] \<Rightarrow> [[c]] | piece # pieces \<Rightarrow> (c # piece) # pieces))"

fun join_named :: "nat \<Rightarrow> string list \<Rightarrow> string" where
  "join_named n [] = []"
| "join_named n [piece] = piece"
| "join_named n (piece # next # pieces) =
     piece @ '':param'' @ string_of_nat n @ join_named (Suc n) (next # pieces)"

definition named_placeholders :: "string \<Rightarrow> string" where
  "named_placeholders sql = join_named 0 (split_on (CHR ''?'') sql)"

definition named_params :: "jsval list \<Rightarrow> obj" where
  "named_params ps = map (\<lambda>(index, v). (''param'' @ string_of_nat index, v)) (enumerate 0 ps)"

subsection \<open>Sequential execution\<close>



subsection \<open>Kinds of request\<close>

definition content_type_ok :: "request \<Rightarrow> bool" where
  "content_type_ok request =
     str_includes (case req_content_type request of None \<Rightarrow> [] | Some h \<Rightarrow> h)
       ''application/json''"


text \<open>A request whose body holds a batch, every element of which passes the checks.\<close>

definition batch_request :: "request \<Rightarrow> query list \<Rightarrow> bool" where
  "batch_request request queries =
     (content_type_ok request
      \<and> (case req_json request of
           Inl e \<Rightarrow> False
         | Inr body \<Rightarrow>
             \<not> nullish body \<and> is_batch (property body ''transaction'')
             \<and> map_throwing to_query (elements (property body ''transaction'')) = Inr queries))"

text \<open>The export and import routes, and the answer of their guard.\<close>

definition export_route :: "request \<Rightarrow> bool" where
  "export_route request =
     (req_method request = ''GET''
      \<and> (req_path request = [''export'', ''dump'']
         \<or> table_route ''export'' ''json'' (req_path request) \<noteq> None
         \<or> table_route ''export'' ''csv'' (req_path request) \<noteq> None))"

definition import_route :: "request \<Rightarrow> bool" where
  "import_route request =
     (req_method request = ''POST''
      \<and> (req_path request = [''import'', ''dump'']
         \<or> table_route ''import'' ''json'' (req_path request) \<noteq> None
         \<or> table_route ''import'' ''csv'' (req_path request) \<noteq> None))"

definition internal_only :: response where
  "internal_only =
     createResponse None (Some ''Function is only available for internal data source.'') 400"

section \<open>Properties of the result shape transformer\<close>

text \<open>
  A row whose columns are distinct, are no array indices and are not \<open>__proto__\<close>
  becomes the object that pairs each column with its value, in column order.
\<close>

lemma foldl_obj_set_append:
  "distinct cols \<Longrightarrow> set cols \<inter> set (map fst ob) = {} \<Longrightarrow>
   \<forall>c\<in>set cols. \<not> is_array_index c \<and> c \<noteq> ''__proto__'' \<Longrightarrow>
   foldl (\<lambda>ob (index, column). obj_set ob column (arr_get row index)) ob (enumerate n cols)
     = ob @ map (\<lambda>(index, column). (column, arr_get row index)) (enumerate n cols)"
proof (induction cols arbitrary: ob n)
  case Nil
  then show ?case by simp
next
  case (Cons c cols)
  have step: "obj_set ob c (arr_get row n) = ob @ [(c, arr_get row n)]"
    using Cons.prems by (auto simp: obj_set_def)
  have "set cols \<inter> set (map fst (ob @ [(c, arr_get row n)])) = {}"
    using Cons.prems by auto
  with Cons.IH[of "ob @ [(c, arr_get row n)]" "Suc n"] Cons.prems step
  show ?case by simp
qed

lemma enumerate_zip_row:
  "length row = length cols \<Longrightarrow>
   map (\<lambda>(index, column). (column, arr_get row index)) (enumerate 0 cols) = zip cols row"
  by (rule nth_equalityI) (auto simp: arr_get_def nth_enumerate_eq)

lemma row_to_object_zip:
  assumes "distinct cols" "\<forall>c\<in>set cols. \<not> is_array_index c \<and> c \<noteq> ''__proto__''"
    "length row = length cols"
  shows "row_to_object cols row = zip cols row"
  using foldl_obj_set_append[of cols "[]" row 0] assms enumerate_zip_row[of row cols]
  by (simp add: row_to_object_def)

lemma project_zip:
  assumes "distinct cols" "length row = length cols"
  shows "map (\<lambda>col. obj_get (zip cols row) col) cols = row"
proof (rule nth_equalityI)
  show "length (map (\<lambda>col. obj_get (zip cols row) col) cols) = length row"
    using assms by simp
next
  fix i assume "i < length (map (\<lambda>col. obj_get (zip cols row) col) cols)"
  then have i: "i < length cols" by simp
  have "map_of (zip cols row) (cols ! i) = Some (row ! i)"
    using assms i by (simp add: map_of_zip_nth)
  then show "map (\<lambda>col. obj_get (zip cols row) col) cols ! i = row ! i"
    using i by (simp add: obj_get_def)
qed

text \<open>
  Claim C8, as the spec states it: for every RawResult whose rows all share identical
  keys after conversion, raw-to-object followed by object-to-raw gives back the
  columns and the rows. This fails on a table with two columns of the same name, as a
  join returns: the row object keeps one key with the later value, so one column and
  one value come back. It fails as well on a table with columns and no rows: no row is
  left to read the keys from, so the columns come back empty.
\<close>

theorem raw_roundtrip_counterexample:
  "share_keys (raw_to_objects joined_table)
   \<and> transformRawResults (Raw joined_table) From = Inr (Rows [[(''id'', JNum 2)]])
   \<and> transformRawResults (Rows [[(''id'', JNum 2)]]) To
       = Inr (Raw \<lparr>columns = [''id''], rows = [[JNum 2]],
                   meta = \<lparr>rows_read = 1, rows_written = 0\<rparr>\<rparr>)
   \<and> columns joined_table = [''id'', ''id'']
   \<and> rows joined_table = [[JNum 1, JNum 2]]
   \<and> share_keys (raw_to_objects empty_table)
   \<and> transformRawResults (Raw empty_table) From = Inr (Rows [])
   \<and> transformRawResults (Rows []) To
       = Inr (Raw \<lparr>columns = [], rows = [], meta = \<lparr>rows_read = 0, rows_written = 0\<rparr>\<rparr>)
   \<and> columns empty_table = [''id'']"
  by (simp add: joined_table_def empty_table_def share_keys_def raw_to_objects_def
      objects_to_raw_def object_keys_def row_to_object_def obj_set_def arr_get_def
      obj_get_def)

text \<open>
  Claim C8, amended: for every RawResult with at least one row, whose column names are
  distinct, are not array indices and are not \<open>__proto__\<close>, and whose rows each hold
  one value per column, raw-to-object gives rows that share their keys, and
  object-to-raw of these rows gives back the columns and the rows.
\<close>

theorem raw_roundtrip:
  assumes nonempty: "rows r \<noteq> []"
    and dist: "distinct (columns r)"
    and plain: "\<forall>c\<in>set (columns r). \<not> is_array_index c \<and> c \<noteq> ''__proto__''"
    and width: "\<forall>row\<in>set (rows r). length row = length (columns r)"
  shows "transformRawResults (Raw r) From = Inr (Rows (raw_to_objects r))
    \<and> share_keys (raw_to_objects r)
    \<and> transformRawResults (Rows (raw_to_objects r)) To
        = Inr (Raw (objects_to_raw (raw_to_objects r)))
    \<and> columns (objects_to_raw (raw_to_objects r)) = columns r
    \<and> rows (objects_to_raw (raw_to_objects r)) = rows r"
proof -
  have os: "raw_to_objects r = map (zip (columns r)) (rows r)"
    unfolding raw_to_objects_def using dist plain width
    by (intro map_cong) (auto simp: row_to_object_zip)
  obtain row0 rest where rs: "rows r = row0 # rest"
    using nonempty by (cases "rows r") auto
  have l0: "length row0 = length (columns r)" using width rs by simp
  have keys: "\<forall>row\<in>set (rows r). object_keys (zip (columns r) row) = columns r"
    using width by (simp add: object_keys_def)
  have shared: "share_keys (raw_to_objects r)"
    unfolding share_keys_def os using keys by (simp add: list_all_iff)
  have cols: "columns (objects_to_raw (raw_to_objects r)) = columns r"
    using l0 by (simp add: os rs objects_to_raw_def object_keys_def Let_def)
  have "rows (objects_to_raw (raw_to_objects r)) =
      map (\<lambda>row. map (\<lambda>col. obj_get row col) (columns r)) (map (zip (columns r)) (rows r))"
    using l0 by (simp add: os rs objects_to_raw_def object_keys_def Let_def)
  also have "\<dots> = rows r"
    using dist width by (simp add: map_idI project_zip)
  finally show ?thesis using cols shared by simp
qed

theorem raw_roundtrip_witness:
  "rows sample_table \<noteq> [] \<and> distinct (columns sample_table)
   \<and> list_all (\<lambda>c. \<not> is_array_index c \<and> c \<noteq> ''__proto__'') (columns sample_table)
   \<and> list_all (\<lambda>row. length row = length (columns sample_table)) (rows sample_table)
   \<and> transformRawResults (Raw sample_table) From
       = Inr (Rows [[(''id'', JNum 1), (''name'', JStr ''Ada'')],
                    [(''id'', JNum 2), (''name'', JStr ''Bob'')]])
   \<and> columns (objects_to_raw (raw_to_objects sample_table)) = [''id'', ''name'']
   \<and> rows (objects_to_raw (raw_to_objects sample_table))
       = [[JNum 1, JStr ''Ada''], [JNum 2, JStr ''Bob'']]"
proof -
  have a: "rows sample_table \<noteq> []" by (simp add: sample_table_def)
  have b: "distinct (columns sample_table)" by (simp add: sample_table_def)
  have c: "\<forall>c\<in>set (columns sample_table). \<not> is_array_index c \<and> c \<noteq> ''__proto__''"
    by (simp add: sample_table_def is_array_index_def is_digit_def)
  have d: "\<forall>row\<in>set (rows sample_table). length row = length (columns sample_table)"
    by (simp add: sample_table_def)
  have e: "raw_to_objects sample_table =
      [[(''id'', JNum 1), (''name'', JStr ''Ada'')], [(''id'', JNum 2), (''name'', JStr ''Bob'')]]"
    by (simp add: sample_table_def raw_to_objects_def row_to_object_def obj_set_def
        arr_get_def is_array_index_def is_digit_def)
  from raw_roundtrip [OF a b c d] a b c d e show ?thesis
    by (simp add: list_all_iff sample_table_def)
qed

text \<open>
  Claim C9: for every ObjectResult, object-to-raw gives as columns the keys of the
  first row in their order (no columns when there is no row); one row per row object,
  as long as the columns; in it, under each column, the value the row object holds for
  that key (and \<open>undefined\<close> when it holds none and inherits none); \<open>rows_read\<close> equal to
  the number of rows and \<open>rows_written\<close> equal to 0. The keys are the first components
  of the object's properties and the values are looked up with \<open>map_of\<close>: the statement
  does not go through the functions of the embedding.
\<close>

theorem objects_to_raw_shape:
  "transformRawResults (Rows result) To = Inr (Raw (objects_to_raw result))
   \<and> columns (objects_to_raw result) =
       (case result of [] \<Rightarrow> [] | first # others \<Rightarrow> map fst first)
   \<and> length (rows (objects_to_raw result)) = length result
   \<and> (\<forall>i<length result.
         length (rows (objects_to_raw result) ! i) = length (columns (objects_to_raw result)))
   \<and> (\<forall>i<length result. \<forall>j<length (columns (objects_to_raw result)). \<forall>v.
         map_of (result ! i) (columns (objects_to_raw result) ! j) = Some v
         \<longrightarrow> rows (objects_to_raw result) ! i ! j = v)
   \<and> (\<forall>i<length result. \<forall>j<length (columns (objects_to_raw result)).
         map_of (result ! i) (columns (objects_to_raw result) ! j) = None
         \<and> columns (objects_to_raw result) ! j \<notin> set object_prototype_keys
         \<longrightarrow> rows (objects_to_raw result) ! i ! j = JUndefined)
   \<and> rows_read (meta (objects_to_raw result)) = int (length result)
   \<and> rows_written (meta (objects_to_raw result)) = 0"
proof -
  let ?cols = "case result of [] \<Rightarrow> [] | first # others \<Rightarrow> map fst first"
  have cols: "columns (objects_to_raw result) = ?cols"
    by (cases result) (simp_all add: objects_to_raw_def object_keys_def Let_def)
  have rs: "rows (objects_to_raw result) = map (\<lambda>row. map (obj_get row) ?cols) result"
    by (cases result) (simp_all add: objects_to_raw_def object_keys_def Let_def)
  have cell: "rows (objects_to_raw result) ! i ! j = obj_get (result ! i) (?cols ! j)"
    if "i < length result" "j < length ?cols" for i j
    using that by (simp add: rs)
  have counts: "rows_read (meta (objects_to_raw result)) = int (length result)"
    "rows_written (meta (objects_to_raw result)) = 0"
    by (simp_all add: objects_to_raw_def Let_def)
  show ?thesis
    using cell counts by (simp add: cols rs obj_get_def)
qed

theorem objects_to_raw_shape_witness:
  "transformRawResults (Rows sample_rows) To
     = Inr (Raw \<lparr>columns = [''id'', ''name''],
                 rows = [[JNum 1, JStr ''Ada''], [JNum 2, JStr ''Bob''], [JNum 3, JUndefined]],
                 meta = \<lparr>rows_read = 3, rows_written = 0\<rparr>\<rparr>)
   \<and> map_of (sample_rows ! 1) (columns (objects_to_raw sample_rows) ! 0) = Some (JNum 2)
   \<and> rows (objects_to_raw sample_rows) ! 1 ! 0 = JNum 2
   \<and> map_of (sample_rows ! 2) (columns (objects_to_raw sample_rows) ! 1) = None
   \<and> rows (objects_to_raw sample_rows) ! 2 ! 1 = JUndefined
   \<and> transformRawResults (Rows []) To
     = Inr (Raw \<lparr>columns = [], rows = [], meta = \<lparr>rows_read = 0, rows_written = 0\<rparr>\<rparr>)"
proof -
  have cols: "columns (objects_to_raw sample_rows) = [''id'', ''name'']"
    using objects_to_raw_shape[of sample_rows] by (simp add: sample_rows_def)
  have len: "length sample_rows = 3" by (simp add: sample_rows_def)
  have found: "map_of (sample_rows ! 1) (columns (objects_to_raw sample_rows) ! 0)
      = Some (JNum 2)"
    by (simp add: cols) (simp add: sample_rows_def)
  have missing: "map_of (sample_rows ! 2) (columns (objects_to_raw sample_rows) ! 1) = None"
    "columns (objects_to_raw sample_rows) ! 1 \<notin> set object_prototype_keys"
    by (simp_all add: cols object_prototype_keys_def) (simp add: sample_rows_def)
  have one: "rows (objects_to_raw sample_rows) ! 1 ! 0 = JNum 2"
    using objects_to_raw_shape[of sample_rows] found len cols by simp
  have two: "rows (objects_to_raw sample_rows) ! 2 ! 1 = JUndefined"
    using objects_to_raw_shape[of sample_rows] missing len cols by simp
  have whole: "objects_to_raw sample_rows
      = \<lparr>columns = [''id'', ''name''],
         rows = [[JNum 1, JStr ''Ada''], [JNum 2, JStr ''Bob''], [JNum 3, JUndefined]],
         meta = \<lparr>rows_read = 3, rows_written = 0\<rparr>\<rparr>"
    by (simp add: objects_to_raw_def object_keys_def sample_rows_def obj_get_def
        object_prototype_keys_def)
  have none: "objects_to_raw [] = \<lparr>columns = [], rows = [],
      meta = \<lparr>rows_read = 0, rows_written = 0\<rparr>\<rparr>"
    by (simp add: objects_to_raw_def object_keys_def)
  from objects_to_raw_shape[of sample_rows] objects_to_raw_shape[of "[]"]
    whole none found missing(1) one two
  show ?thesis by simp
qed

section \<open>Properties of the operations\<close>

text \<open>
  Claim C10: when the data source is absent, \<open>executeQuery\<close> and \<open>executeTransaction\<close>
  resolve to the empty array and leave the world as it was, whatever the allowlist,
  row-level security, cache and backends are: none of them is called.
\<close>

theorem absent_data_source:
  "executeQuery env sql params isRaw None config w = (Inr (Rows []), w)
   \<and> executeTransaction env queries isRaw None config w = (Inr [], w)"
  by (simp add: executeQuery_def executeTransaction_def resolve_def)

text \<open>The definitions that evaluate the pipeline on a concrete input.\<close>

lemmas pipeline_defs = executeQuery_def await_def try_catch_def resolve_def reject_def
  beforeQuery_def afterQuery_def feature_or_false_def external_dialect_def

lemmas demo_defs = demo_env_def demo_backend_def config_with_def features_with_def
  internal_source_def external_postgres_def empty_world_def sample_engine_def
  owner_policy_def gateway_def

lemmas route_defs = queryRoute_def queryRoute_try_def json_request_def createResponse_def
  to_query_def executeTransaction_def obj_get_def object_prototype_keys_def trim_def
  is_whitespace_def

subsection \<open>Caching and row-level security\<close>

text \<open>
  For every environment: whatever statement \<open>applyRLS\<close> returns, equal to the one it
  was given or not, a query in object mode is looked up in the cache under that
  statement and answered from it on a hit, and on a miss its result is written to the
  cache under that statement.
\<close>

lemma rewritten_statement_answered_from_cache:
  "isQueryAllowed env sql (feature_or_false allowlist config) ds config w = (Inr ok, wa) \<Longrightarrow>
   applyRLS env sql (feature_or_false rls config) (external_dialect ds) ds config wa
     = (Inr sql', wb) \<Longrightarrow>
   beforeQueryCache env sql' params ds wb = (Inr (Some cached), wc) \<Longrightarrow>
   executeQuery env sql params False (Some ds) config w = (Inr cached, wc)"
  by (simp add: executeQuery_def try_catch_def await_def beforeQuery_def resolve_def)

lemma rewritten_statement_written_to_cache:
  "source ds = Internal \<Longrightarrow>
   isQueryAllowed env sql (feature_or_false allowlist config) ds config w = (Inr ok, wa) \<Longrightarrow>
   applyRLS env sql (feature_or_false rls config) (external_dialect ds) ds config wa
     = (Inr sql', wb) \<Longrightarrow>
   beforeQueryCache env sql' params ds wb = (Inr None, wc) \<Longrightarrow>
   rpc_executeQuery env sql' params False wc = (Inr response, wd) \<Longrightarrow>
   afterQueryCache env sql' params response ds wd = (Inr (), we) \<Longrightarrow>
   executeQuery env sql params False (Some ds) config w = (Inr response, we)"
  by (simp add: executeQuery_def try_catch_def await_def beforeQuery_def resolve_def
      afterQuery_def)

text \<open>
  Claim C2 says that a statement which row-level security rewrote is neither looked up
  in the cache nor written to it. The comment in \<open>executeQuery\<close> says the same, but the
  code tests \<open>isRaw\<close> only. In the reference environment, with row-level security on
  and a policy that adds a clause, the first call writes the rewritten statement to the
  cache, and the second call is answered from the cache: the engine has applied one
  statement, not two.
\<close>

theorem rls_rewritten_query_is_cached:
  "owner_policy ''SELECT * FROM notes'' = ''SELECT * FROM notes WHERE owner = 1''
   \<and> executeQuery (demo_env (\<lambda>s. True) owner_policy sample_engine) ''SELECT * FROM notes''
       JUndefined False (Some internal_source)
       (Some (config_with None (Some (features_with None (Some True))))) empty_world
     = (Inr (Rows [[(''id'', JNum 1)]]),
        \<lparr>cache_entries =
           [((''SELECT * FROM notes WHERE owner = 1'', JUndefined), Rows [[(''id'', JNum 1)]])],
         executed = [(''SELECT * FROM notes WHERE owner = 1'', JUndefined)]\<rparr>)
   \<and> executeQuery (demo_env (\<lambda>s. True) owner_policy sample_engine) ''SELECT * FROM notes''
       JUndefined False (Some internal_source)
       (Some (config_with None (Some (features_with None (Some True)))))
       \<lparr>cache_entries =
          [((''SELECT * FROM notes WHERE owner = 1'', JUndefined), Rows [[(''id'', JNum 1)]])],
        executed = [(''SELECT * FROM notes WHERE owner = 1'', JUndefined)]\<rparr>
     = (Inr (Rows [[(''id'', JNum 1)]]),
        \<lparr>cache_entries =
           [((''SELECT * FROM notes WHERE owner = 1'', JUndefined), Rows [[(''id'', JNum 1)]])],
         executed = [(''SELECT * FROM notes WHERE owner = 1'', JUndefined)]\<rparr>)"
  by (simp add: pipeline_defs demo_defs)

subsection \<open>The hosted-proxy path\<close>

lemma split_on_nonempty: "split_on sep s \<noteq> []"
  by (induction s) (auto split: list.splits)

lemma replace_placeholders_join:
  "replace_placeholders n sql = join_named n (split_on (CHR ''?'') sql)"
proof (induction sql arbitrary: n)
  case Nil
  then show ?case by simp
next
  case (Cons c cs)
  obtain piece pieces where sp: "split_on (CHR ''?'') cs = piece # pieces"
    using split_on_nonempty[of "CHR ''?''" cs] by (cases "split_on (CHR ''?'') cs") auto
  show ?case
  proof (cases "c = CHR ''?''")
    case True
    then show ?thesis using Cons.IH[of "Suc n"] sp by simp
  next
    case False
    then show ?thesis using Cons.IH[of n] sp by (cases pieces) simp_all
  qed
qed

lemma of_char_digit_char: "d < 10 \<Longrightarrow> (of_char (digit_char d) :: nat) = 48 + d"
  by (simp add: digit_char_def)

lemma nat_of_digits_snoc:
  "nat_of_digits (s @ [c]) = 10 * nat_of_digits s + ((of_char c :: nat) - 48)"
  by (simp add: nat_of_digits_def)

text \<open>Reading the decimal text of a number gives the number, so the text determines it.\<close>

lemma nat_of_digits_string_of_nat: "nat_of_digits (string_of_nat n) = n"
proof (induction n rule: string_of_nat.induct)
  case (1 n)
  show ?case
  proof (cases "n < 10")
    case True
    then show ?thesis
      by (simp add: string_of_nat.simps[of n] nat_of_digits_def of_char_digit_char)
  next
    case False
    then show ?thesis
      using "1.IH" by (simp add: string_of_nat.simps[of n] nat_of_digits_snoc of_char_digit_char)
  qed
qed

lemma string_of_nat_inj: "string_of_nat i = string_of_nat j \<Longrightarrow> i = j"
  by (metis nat_of_digits_string_of_nat)

lemma foldl_obj_set_new_keys:
  "distinct (map fst kvs) \<Longrightarrow> set (map fst kvs) \<inter> set (map fst ob) = {} \<Longrightarrow>
   \<forall>k\<in>set (map fst kvs). \<not> is_array_index k \<and> k \<noteq> ''__proto__'' \<Longrightarrow>
   foldl (\<lambda>ob (k, v). obj_set ob k v) ob kvs = ob @ kvs"
proof (induction kvs arbitrary: ob)
  case Nil
  then show ?case by simp
next
  case (Cons kv kvs)
  obtain k v where kv: "kv = (k, v)" by (cases kv)
  have step: "obj_set ob k v = ob @ [(k, v)]"
    using Cons.prems kv by (auto simp: obj_set_def)
  have "set (map fst kvs) \<inter> set (map fst (ob @ [(k, v)])) = {}"
    using Cons.prems kv by auto
  with Cons.IH[of "ob @ [(k, v)]"] Cons.prems step kv
  show ?case by simp
qed

lemma param_key_plain:
  "\<not> is_array_index (''param'' @ s) \<and> ''param'' @ s \<noteq> ''__proto__''"
  by (simp add: is_array_index_def is_digit_def)

lemma params_to_object_named: "params_to_object ps = named_params ps"
proof -
  let ?kvs = "map (\<lambda>(index, v). (''param'' @ string_of_nat index, v)) (enumerate 0 ps)"
  have fold: "params_to_object ps = foldl (\<lambda>ob (k, v). obj_set ob k v) [] ?kvs"
    by (simp add: params_to_object_def foldl_map case_prod_unfold)
  have keys: "map fst ?kvs = map (\<lambda>index. ''param'' @ string_of_nat index) [0..<length ps]"
    by (rule nth_equalityI) (simp_all add: nth_enumerate_eq)
  have "distinct (map fst ?kvs)"
    unfolding keys by (simp add: distinct_map inj_on_def string_of_nat_inj)
  moreover have "\<forall>k\<in>set (map fst ?kvs). \<not> is_array_index k \<and> k \<noteq> ''__proto__''"
    unfolding keys using param_key_plain by auto
  ultimately have "foldl (\<lambda>ob (k, v). obj_set ob k v) [] ?kvs = [] @ ?kvs"
    by (intro foldl_obj_set_new_keys) simp_all
  then show ?thesis using fold by (simp add: named_params_def)
qed

lemma replace_newlines_none: "CHR 0x0A \<notin> set (replace_newlines s)"
  by (induction s) (simp_all add: replace_newlines_def)

text \<open>
  Claim C3: with an external connection and a hosted credential configured (a key that
  is not empty), an array of parameters makes \<open>executeExternalQuery\<close> send the
  statement with its \<open>?\<close> replaced in order by \<open>:param0\<close>, \<open>:param1\<close>, ..., and the
  parameters as the mapping from \<open>paramN\<close> to the \<open>N\<close>-th value; parameters that are an
  object are sent as they are, with the statement unchanged but for its newlines; in
  both cases every newline of the statement sent is replaced by a space.
\<close>

theorem hosted_proxy_rewrite:
  assumes "external ds = Some ext" "outerbaseApiKey config = Some key" "key \<noteq> []"
  shows "executeExternalQuery env sql (JArr ps) (ArgDataSource ds) (ArgConfig config)
          = fetch_ezql env key (replace_newlines (named_placeholders sql)) (JObj (named_params ps))
     \<and> executeExternalQuery env sql (JObj ob) (ArgDataSource ds) (ArgConfig config)
          = fetch_ezql env key (replace_newlines sql) (JObj ob)
     \<and> CHR 0x0A \<notin> set (replace_newlines (named_placeholders sql))
     \<and> CHR 0x0A \<notin> set (replace_newlines sql)
     \<and> length (replace_newlines sql) = length sql"
  using assms
  by (simp add: executeExternalQuery_def replace_placeholders_join params_to_object_named
      named_placeholders_def replace_newlines_none) (simp add: replace_newlines_def)

theorem hosted_proxy_rewrite_witness:
  "external external_postgres \<noteq> None
   \<and> executeExternalQuery (demo_env (\<lambda>s. True) (\<lambda>s. s) sample_engine)
       ''SELECT * FROM t WHERE a=? AND b=?'' (JArr [JNum 1, JStr ''x''])
       (ArgDataSource external_postgres) (ArgConfig (config_with (Some ''token'') None))
     = fetch_ezql (demo_env (\<lambda>s. True) (\<lambda>s. s) sample_engine) ''token''
        ''SELECT * FROM t WHERE a=:param0 AND b=:param1''
        (JObj [(''param0'', JNum 1), (''param1'', JStr ''x'')])"
proof -
  have a: "external external_postgres = Some \<lparr>dialect = Some ''postgres'', provider = None\<rparr>"
    by (simp add: external_postgres_def)
  have b: "outerbaseApiKey (config_with (Some ''token'') None) = Some ''token''"
    by (simp add: config_with_def)
  have c: "''token'' \<noteq> []" by simp
  have d: "replace_newlines (named_placeholders ''SELECT * FROM t WHERE a=? AND b=?'')
      = ''SELECT * FROM t WHERE a=:param0 AND b=:param1''"
    by code_simp
  have e: "named_params [JNum 1, JStr ''x''] = [(''param0'', JNum 1), (''param1'', JStr ''x'')]"
    by code_simp
  from hosted_proxy_rewrite [OF a b c,
      where env = "demo_env (\<lambda>s. True) (\<lambda>s. s) sample_engine"
      and sql = "''SELECT * FROM t WHERE a=? AND b=?''" and ps = "[JNum 1, JStr ''x'']"] a d e
  show ?thesis by simp
qed

subsection \<open>Dispatch to an external source\<close>

lemma external_call_rejects:
  "executeExternalQuery env sql params (ArgBool isRaw) (ArgDataSource ds)
     = reject (Thrown (Some ''External connection not found.''))"
  by (simp add: executeExternalQuery_def)

text \<open>
  Claim C6: for an external data source, whatever its connection descriptor, a call of
  \<open>executeQuery\<close> that reaches the dispatch (the allowlist lets the statement pass,
  row-level security returns, and the cache is skipped or has no entry) is rejected with
  "External connection not found.": \<open>executeExternalQuery\<close> is called with \<open>isRaw\<close> in
  the place of its \<open>dataSource\<close> parameter, and a boolean has no \<open>external\<close>.
\<close>

theorem external_dispatch_fails:
  assumes ext: "source ds = External"
    and allowed: "isQueryAllowed env sql (feature_or_false allowlist config) ds config w
                   = (Inr ok, w1)"
    and rewritten: "applyRLS env sql (feature_or_false rls config) (external_dialect ds) ds
                     config w1 = (Inr sql', w2)"
    and miss: "(if \<not> isRaw then beforeQueryCache env sql' params ds else resolve None) w2
                = (Inr None, w3)"
  shows "executeExternalQuery env sql' params (ArgBool isRaw) (ArgDataSource ds) w3
           = (Inl (Thrown (Some ''External connection not found.'')), w3)
       \<and> executeQuery env sql params isRaw (Some ds) config w
           = (Inl (Thrown (Some ''External connection not found.'')), w3)"
proof -
  have call: "executeExternalQuery env sql' params (ArgBool isRaw) (ArgDataSource ds) w3
           = (Inl (Thrown (Some ''External connection not found.'')), w3)"
    by (simp add: external_call_rejects reject_def)
  have "executeQuery env sql params isRaw (Some ds) config w
      = try_catch (\<lambda>w. (Inl (Thrown (Some ''External connection not found.'')), w3))
          (\<lambda>error. reject (rethrow error)) w"
    unfolding executeQuery_def
    using ext allowed rewritten miss call
    by (simp add: await_def try_catch_def beforeQuery_def resolve_def)
  then show ?thesis using call by (simp add: try_catch_def reject_def)
qed

theorem external_dispatch_fails_witness:
  "source external_postgres = External
   \<and> external external_postgres \<noteq> None
   \<and> executeQuery (demo_env (\<lambda>s. True) (\<lambda>s. s) sample_engine) ''SELECT 1'' JUndefined False
        (Some external_postgres) (Some (config_with (Some ''token'') None)) empty_world
       = (Inl (Thrown (Some ''External connection not found.'')), empty_world)"
proof -
  let ?env = "demo_env (\<lambda>s. True) (\<lambda>s. s) sample_engine"
  let ?cfg = "Some (config_with (Some ''token'') None)"
  have a: "source external_postgres = External" by (simp add: external_postgres_def)
  have b: "isQueryAllowed ?env ''SELECT 1'' (feature_or_false allowlist ?cfg) external_postgres
            ?cfg empty_world = (Inr True, empty_world)"
    by (simp add: demo_env_def resolve_def feature_or_false_def config_with_def)
  have c: "applyRLS ?env ''SELECT 1'' (feature_or_false rls ?cfg)
            (external_dialect external_postgres) external_postgres ?cfg empty_world
            = (Inr ''SELECT 1'', empty_world)"
    by (simp add: demo_env_def resolve_def feature_or_false_def config_with_def)
  have d: "(if \<not> False then beforeQueryCache ?env ''SELECT 1'' JUndefined external_postgres
            else resolve None) empty_world = (Inr None, empty_world)"
    by (simp add: demo_env_def empty_world_def)
  from external_dispatch_fails [OF a b c d] a show ?thesis
    by (simp add: external_postgres_def)
qed

subsection \<open>Batches\<close>





section \<open>Properties of the handler\<close>

subsection \<open>The calls of the operations\<close>

text \<open>
  Without a data source the operations resolve to the empty array, whatever their
  first parameter holds. This is what the calls of \<open>queryRoute\<close> get: a request that
  passes the checks is answered with status 200 and an empty result, and nothing is
  executed.
\<close>

lemma operations_without_data_source:
  "executeQuery env sql params isRaw None config = resolve (Rows [])"
  "executeTransaction env queries isRaw None config = resolve []"
  by (simp_all add: executeQuery_def executeTransaction_def)


lemma queryRoute_batch:
  assumes "batch_request request queries"
  shows "queryRoute_try env this request isRaw =
     resolve (createResponse (Some (Batch [])) None 200)"
  using assms
  by (auto simp add: queryRoute_try_def batch_request_def content_type_ok_def Let_def
      operations_without_data_source await_def resolve_def fun_eq_iff split: sum.splits)

subsection \<open>Validation\<close>

text \<open>
  Claim C5 says that parameters which are present and are neither an array nor a
  mapping are a validation error. The check is \<open>typeof params !== 'object'\<close>, and the
  type of \<open>null\<close> is \<open>'object'\<close>: \<open>null\<close> passes the check whose message reads "Must be
  an array or object", in a single statement and in an element of a batch alike, and
  the request is answered with status 200, not 400.
\<close>

theorem null_params_are_accepted:
  "invalid_params JNull = False
   \<and> to_query (JObj [(''sql'', JStr ''SELECT 1''), (''params'', JNull)])
       = Inr \<lparr>query_sql = ''SELECT 1'', query_params = JNull\<rparr>
   \<and> queryRoute env this
       (json_request ''POST'' [''query'']
          (JObj [(''sql'', JStr ''SELECT 1''), (''params'', JNull)]))
       isRaw w
     = (createResponse (Some (Single (Rows []))) None 200, w)"
  by (simp add: route_defs operations_without_data_source await_def resolve_def)


subsection \<open>Status of an error\<close>









subsection \<open>Routes\<close>

lemma table_route_path:
  "table_route a b p \<noteq> None \<Longrightarrow> \<exists>t. t \<noteq> [] \<and> p = [a, b, t]"
  by (induction a b p rule: table_route.induct) (auto split: if_splits)

lemma own_routes_export:
  assumes "getFeature this export True"
    "p = [''export'', ''dump''] \<or> p = [''export'', ''json'', t] \<or> p = [''export'', ''csv'', t]"
    "t \<noteq> []"
  shows "own_routes this ''GET'' p = isInternalSource this
     (if p = [''export'', ''dump''] then DumpDatabaseRoute
      else if p = [''export'', ''json'', t] then hasTableName t ExportTableToJsonRoute
      else hasTableName t ExportTableToCsvRoute)"
  using assms(2)
proof (elim disjE)
  assume "p = [''export'', ''dump'']"
  then show ?thesis using assms(1) by (simp add: own_routes_def)
next
  assume "p = [''export'', ''json'', t]"
  then show ?thesis using assms(1,3) by (simp add: own_routes_def)
next
  assume "p = [''export'', ''csv'', t]"
  then show ?thesis using assms(1,3) by (simp add: own_routes_def)
qed

lemma own_routes_import:
  assumes "getFeature this import True"
    "p = [''import'', ''dump''] \<or> p = [''import'', ''json'', t] \<or> p = [''import'', ''csv'', t]"
    "t \<noteq> []"
  shows "own_routes this ''POST'' p = isInternalSource this
     (if p = [''import'', ''dump''] then ImportDumpRoute
      else if p = [''import'', ''json'', t] then hasTableName t ImportTableFromJsonRoute
      else hasTableName t ImportTableFromCsvRoute)"
  using assms(2)
proof (elim disjE)
  assume "p = [''import'', ''dump'']"
  then show ?thesis using assms(1) by (simp add: own_routes_def)
next
  assume "p = [''import'', ''json'', t]"
  then show ?thesis using assms(1,3) by (simp add: own_routes_def)
next
  assume "p = [''import'', ''csv'', t]"
  then show ?thesis using assms(1,3) by (simp add: own_routes_def)
qed

lemma own_routes_rest:
  assumes "getFeature this rest True" "under ''rest'' p" "m \<noteq> ''OPTIONS''"
  shows "own_routes this m p = LiteREST_handleRequest"
proof -
  obtain p' where p: "p = ''rest'' # p'"
    using assms(2) by (cases p) auto
  show ?thesis using assms p by (simp add: own_routes_def)
qed

lemma external_guard:
  "source (this_dataSource this) = External \<Longrightarrow>
   isInternalSource this next = Respond internal_only"
  by (simp add: isInternalSource_def internal_only_def)

text \<open>
  In the handler the guard \<open>isInternalSource\<close> stands on the export and import routes:
  on a gateway whose source is external these answer the fixed error. It does not stand
  on the route \<open>/rest/*\<close>.
\<close>

lemma export_guarded:
  assumes ext: "source (this_dataSource this) = External"
    and f: "getFeature this export True" and r: "export_route request"
  shows "own_routes this (req_method request) (req_path request) = Respond internal_only"
proof -
  from r have m: "req_method request = ''GET''"
    by (simp add: export_route_def)
  from r have "\<exists>t. t \<noteq> [] \<and> (req_path request = [''export'', ''dump'']
      \<or> req_path request = [''export'', ''json'', t]
      \<or> req_path request = [''export'', ''csv'', t])"
    unfolding export_route_def
    using table_route_path[of "''export''" "''json''" "req_path request"]
      table_route_path[of "''export''" "''csv''" "req_path request"]
    by blast
  then obtain t where t: "t \<noteq> []" and p: "req_path request = [''export'', ''dump'']
      \<or> req_path request = [''export'', ''json'', t]
      \<or> req_path request = [''export'', ''csv'', t]"
    by blast
  show ?thesis
    unfolding m own_routes_export[OF f p t] by (rule external_guard[OF ext])
qed

lemma import_guarded:
  assumes ext: "source (this_dataSource this) = External"
    and f: "getFeature this import True" and r: "import_route request"
  shows "own_routes this (req_method request) (req_path request) = Respond internal_only"
proof -
  from r have m: "req_method request = ''POST''"
    by (simp add: import_route_def)
  from r have "\<exists>t. t \<noteq> [] \<and> (req_path request = [''import'', ''dump'']
      \<or> req_path request = [''import'', ''json'', t]
      \<or> req_path request = [''import'', ''csv'', t])"
    unfolding import_route_def
    using table_route_path[of "''import''" "''json''" "req_path request"]
      table_route_path[of "''import''" "''csv''" "req_path request"]
    by blast
  then obtain t where t: "t \<noteq> []" and p: "req_path request = [''import'', ''dump'']
      \<or> req_path request = [''import'', ''json'', t]
      \<or> req_path request = [''import'', ''csv'', t]"
    by blast
  show ?thesis
    unfolding m own_routes_import[OF f p t] by (rule external_guard[OF ext])
qed

text \<open>
  Claim C1, as the spec states it: on a gateway whose source is external every request
  under \<open>/rest/*\<close>, whatever its verb, is rejected with the fixed internal-only error.
  On such a gateway an \<open>OPTIONS\<close> request under \<open>/rest/\<close> is answered by the CORS
  preflight, whose route is registered first and which is given neither the gateway nor
  the request; with the REST feature off the request is answered "Not found" with
  status 404; and a request handled after the first one of its process gets no response,
  since \<open>handle\<close> throws.
\<close>

theorem rest_rejection_counterexample:
  "new_StarbaseDB external_postgres (config_with None None) []
     = Inr (gateway external_postgres None)
   \<and> source (this_dataSource (gateway external_postgres None)) = External
   \<and> handle (gateway external_postgres None) (rest_request ''OPTIONS'') fresh_app
       = (Inr CorsPreflight, \<lparr>matcher_built = True\<rparr>)
   \<and> source (this_dataSource (gateway external_postgres (Some rest_off))) = External
   \<and> handle (gateway external_postgres (Some rest_off)) (rest_request ''GET'') fresh_app
       = (Inr (Respond (createResponse None (Some ''Not found'') 404)),
          \<lparr>matcher_built = True\<rparr>)
   \<and> handle (gateway external_postgres None) (rest_request ''GET'') \<lparr>matcher_built = True\<rparr>
       = (Inl (Thrown (Some ''Can not add a route since the matcher is already built.'')),
          \<lparr>matcher_built = True\<rparr>)"
  by (simp add: new_StarbaseDB_def external_postgres_def gateway_def handle_def app_fetch_def
      own_routes_def getFeature_def config_with_def rest_request_def rest_off_def
      fresh_app_def)

text \<open>
  Claim C1, amended: take a gateway whose source is external and whose REST feature is
  on, and a request under \<open>/rest/*\<close> with a verb other than \<open>OPTIONS\<close> that is the first
  request of its process and that no plugin route answers. The handler hands the
  request to the REST layer (a \<open>HEAD\<close> request as a \<open>GET\<close>, answered without body), and
  the REST layer rejects it with the fixed internal-only error: SQL generation is not
  reached.
\<close>

theorem external_rest_rejected:
  assumes ext: "source (this_dataSource this) = External"
    and first: "\<not> matcher_built app"
    and no_plugin: "plugin_answer (this_plugins this) request = None"
    and on: "getFeature this rest True"
    and path: "under ''rest'' (req_path request)"
    and verb: "req_method request \<noteq> ''OPTIONS''"
  shows "handle this request app
           = (Inr (if req_method request = ''HEAD'' then HeadOf LiteREST_handleRequest
                   else LiteREST_handleRequest),
              app\<lparr>matcher_built := True\<rparr>)
       \<and> liteREST_handleRequest (this_dataSource this) request = RestRejected internal_only
       \<and> liteREST_handleRequest (this_dataSource this) request \<noteq> RestGeneratesSQL"
proof -
  have get: "own_routes this ''GET'' (req_path request) = LiteREST_handleRequest"
    using own_routes_rest[OF on path, of "''GET''"] by simp
  have other: "own_routes this (req_method request) (req_path request) = LiteREST_handleRequest"
    using own_routes_rest[OF on path verb] .
  have "app_fetch this request
      = (if req_method request = ''HEAD'' then HeadOf LiteREST_handleRequest
         else LiteREST_handleRequest)"
    using no_plugin get other by (simp add: app_fetch_def)
  then show ?thesis
    using first ext by (simp add: handle_def liteREST_handleRequest_def internal_only_def)
qed

theorem external_rest_rejected_witness:
  "source (this_dataSource (gateway external_postgres None)) = External
   \<and> \<not> matcher_built fresh_app
   \<and> plugin_answer (this_plugins (gateway external_postgres None)) (rest_request ''DELETE'')
       = None
   \<and> getFeature (gateway external_postgres None) rest True
   \<and> under ''rest'' (req_path (rest_request ''DELETE''))
   \<and> handle (gateway external_postgres None) (rest_request ''DELETE'') fresh_app
       = (Inr LiteREST_handleRequest, \<lparr>matcher_built = True\<rparr>)
   \<and> handle (gateway external_postgres None) (rest_request ''HEAD'') fresh_app
       = (Inr (HeadOf LiteREST_handleRequest), \<lparr>matcher_built = True\<rparr>)
   \<and> liteREST_handleRequest external_postgres (rest_request ''DELETE'')
       = RestRejected internal_only"
proof -
  let ?gw = "gateway external_postgres None"
  have ext: "source (this_dataSource ?gw) = External"
    by (simp add: gateway_def external_postgres_def)
  have first: "\<not> matcher_built fresh_app"
    by (simp add: fresh_app_def)
  have no_plugin: "plugin_answer (this_plugins ?gw) (rest_request m) = None" for m
    by (simp add: gateway_def)
  have on: "getFeature ?gw rest True"
    by (simp add: getFeature_def gateway_def config_with_def)
  have path: "under ''rest'' (req_path (rest_request m))" for m
    by (simp add: rest_request_def)
  have verbs: "req_method (rest_request ''DELETE'') \<noteq> ''OPTIONS''"
    "req_method (rest_request ''HEAD'') \<noteq> ''OPTIONS''"
    by (simp_all add: rest_request_def)
  have ds: "this_dataSource ?gw = external_postgres"
    by (simp add: gateway_def)
  from external_rest_rejected[OF ext first no_plugin on path verbs(1)]
    external_rest_rejected[OF ext first no_plugin on path verbs(2)]
    ext first no_plugin[of "''DELETE''"] on path[of "''DELETE''"] ds
  show ?thesis by (simp add: rest_request_def fresh_app_def)
qed

end
